theory Spec2Isabelle
  imports Main "HOL-Library.Word"
begin

section \<open>The executor header: src/arm64/executor/main.h\<close>

text \<open>
  The header is parametrised by two macros that the build passes on the compiler command
  line. Each may be absent, in which case the header falls back to a default. All other
  macros are fixed. Sizes and offsets are byte counts and are modelled as natural numbers.

  The macros are C constant expressions over decimal constants of type \<^verbatim>\<open>int\<close>, which
  is 32 bits wide. An \<^verbatim>\<open>int\<close> expression whose mathematical value is above \<open>INT_MAX\<close>
  overflows and has no value; such a macro is modelled as \<open>None\<close>.
\<close>

definition INT_MAX :: nat where
  "INT_MAX = 2147483647"

definition int_value :: "nat \<Rightarrow> nat option" where
  "int_value v = (if v \<le> INT_MAX then Some v else None)"

subsection \<open>Cache configuration (lines 13-27)\<close>

record cache_config =
  defined_L1D_ASSOCIATIVITY :: "nat option"
  defined_L1D_SIZE_K :: "nat option"

definition L1D_ASSOCIATIVITY :: "cache_config \<Rightarrow> nat" where
  "L1D_ASSOCIATIVITY c =
     (case defined_L1D_ASSOCIATIVITY c of Some a \<Rightarrow> a | None \<Rightarrow> 2)"

text \<open>
  \<^verbatim>\<open>#define L1D_SIZE (L1D_SIZE_K * 1024)\<close>: an \<^verbatim>\<open>int\<close> product, which overflows from
  \<open>L1D_SIZE_K = 2097152\<close> on.
\<close>

definition L1D_SIZE :: "cache_config \<Rightarrow> nat option" where
  "L1D_SIZE c =
     (case defined_L1D_SIZE_K c of
        Some k \<Rightarrow> int_value (k * 1024)
      | None \<Rightarrow> Some 32768)"

text \<open>
  \<^verbatim>\<open>#define L1D_CONFLICT_DISTANCE (L1D_SIZE / L1D_ASSOCIATIVITY)\<close>: a C constant
  expression, which has no value when \<open>L1D_SIZE\<close> has none or the divisor is zero.
\<close>

definition L1D_CONFLICT_DISTANCE :: "cache_config \<Rightarrow> nat option" where
  "L1D_CONFLICT_DISTANCE c =
     (case L1D_SIZE c of
        None \<Rightarrow> None
      | Some s \<Rightarrow>
          (if L1D_ASSOCIATIVITY c = 0 then None
           else Some (s div L1D_ASSOCIATIVITY c)))"

definition fallback_config :: cache_config where
  "fallback_config =
     \<lparr>defined_L1D_ASSOCIATIVITY = None, defined_L1D_SIZE_K = None\<rparr>"

subsection \<open>Executor configuration interface (lines 29-36)\<close>

text \<open>
  \<^verbatim>\<open>uarch_reset_rounds\<close> is a \<^verbatim>\<open>long\<close>; the two flags are of type \<^verbatim>\<open>char\<close> and are
  on when they are not zero.
\<close>

definition UARCH_RESET_ROUNDS_DEFAULT :: int where
  "UARCH_RESET_ROUNDS_DEFAULT = 1"

definition ENABLE_FAULTY_DEFAULT :: "8 word" where
  "ENABLE_FAULTY_DEFAULT = 0"

definition PRE_RUN_FLUSH_DEFAULT :: "8 word" where
  "PRE_RUN_FLUSH_DEFAULT = 1"

definition flag_on :: "8 word \<Rightarrow> bool" where
  "flag_on f = (f \<noteq> 0)"

subsection \<open>Measurement results (lines 38-48)\<close>

definition HTRACE_WIDTH :: nat where
  "HTRACE_WIDTH = 1"

definition NUM_PFC :: nat where
  "NUM_PFC = 3"

record measurement_t =
  htrace :: "64 word list"
  pfc :: "64 word list"

subsection \<open>Sandbox (lines 50-78)\<close>

definition WORKING_MEMORY_SIZE :: nat where
  "WORKING_MEMORY_SIZE = 1048576"

definition MAIN_REGION_SIZE :: nat where
  "MAIN_REGION_SIZE = 4096"

definition FAULTY_REGION_SIZE :: nat where
  "FAULTY_REGION_SIZE = 4096"

definition OVERFLOW_REGION_SIZE :: nat where
  "OVERFLOW_REGION_SIZE = 4096"

definition REG_INITIALIZATION_REGION_SIZE :: nat where
  "REG_INITIALIZATION_REGION_SIZE = 64"

definition EVICT_REGION_SIZE :: "cache_config \<Rightarrow> nat option" where
  "EVICT_REGION_SIZE c = L1D_SIZE c"

record sandbox_t =
  eviction_region :: "8 word list"
  lower_overflow :: "8 word list"
  main_region :: "8 word list"
  faulty_region :: "8 word list"
  upper_overflow :: "8 word list"
  stored_rsp :: "64 word"
  latest_measurement :: measurement_t

definition REG_INIT_OFFSET :: nat where
  "REG_INIT_OFFSET = 8192"




subsection \<open>Test case and inputs (lines 80-91)\<close>

definition MAX_TEST_CASE_SIZE :: nat where
  "MAX_TEST_CASE_SIZE = 4096"

definition MAX_MEASUREMENT_CODE_SIZE :: nat where
  "MAX_MEASUREMENT_CODE_SIZE = 4096 * 2"

definition REG_INITIALIZATION_REGION_SIZE_ALIGNED :: nat where
  "REG_INITIALIZATION_REGION_SIZE_ALIGNED = 4096"

definition INPUT_SIZE :: nat where
  "INPUT_SIZE =
     MAIN_REGION_SIZE + FAULTY_REGION_SIZE + REG_INITIALIZATION_REGION_SIZE_ALIGNED"

subsection \<open>Layout of the two structs\<close>

text \<open>
  A struct declaration is the list of its members in declaration order, each with its
  size and its alignment in bytes. The C compiler places every member at the next offset
  that is a multiple of the member's alignment, and pads the struct to a multiple of its
  strictest alignment. A \<^verbatim>\<open>char\<close> array is aligned to 1, a \<^verbatim>\<open>uint64_t\<close> to 8.
  \<^verbatim>\<open>struct Sandbox\<close> has a declaration only when the bound of its first array,
  \<open>EVICT_REGION_SIZE\<close>, has a value.
\<close>

type_synonym member = "string \<times> nat \<times> nat"

definition align_up :: "nat \<Rightarrow> nat \<Rightarrow> nat" where
  "align_up a n = ((n + a - 1) div a) * a"

fun place :: "nat \<Rightarrow> member list \<Rightarrow> (string \<times> nat) list" where
  "place off [] = []"
| "place off ((name, sz, al) # ms) =
     (name, align_up al off) # place (align_up al off + sz) ms"

fun end_of :: "nat \<Rightarrow> member list \<Rightarrow> nat" where
  "end_of off [] = off"
| "end_of off ((name, sz, al) # ms) = end_of (align_up al off + sz) ms"

definition alignof_struct :: "member list \<Rightarrow> nat" where
  "alignof_struct ms = fold max (map (\<lambda>(name, sz, al). al) ms) 1"

definition sizeof_struct :: "member list \<Rightarrow> nat" where
  "sizeof_struct ms = align_up (alignof_struct ms) (end_of 0 ms)"


definition sizeof_uint64_t :: nat where
  "sizeof_uint64_t = 8"

definition Measurement :: "member list" where
  "Measurement =
     [(''htrace'', sizeof_uint64_t * HTRACE_WIDTH, 8),
      (''pfc'', sizeof_uint64_t * NUM_PFC, 8)]"

text \<open>
  \<^verbatim>\<open>struct Sandbox\<close> with an eviction region of \<open>e\<close> bytes, and the struct of a cache
  configuration.
\<close>

definition struct_Sandbox :: "nat \<Rightarrow> member list" where
  "struct_Sandbox e =
     [(''eviction_region'', e, 1),
      (''lower_overflow'', OVERFLOW_REGION_SIZE, 1),
      (''main_region'', MAIN_REGION_SIZE, 1),
      (''faulty_region'', FAULTY_REGION_SIZE, 1),
      (''upper_overflow'', OVERFLOW_REGION_SIZE, 1),
      (''stored_rsp'', sizeof_uint64_t, 8),
      (''latest_measurement'', sizeof_struct Measurement, alignof_struct Measurement)]"

definition Sandbox :: "cache_config \<Rightarrow> member list option" where
  "Sandbox c = map_option struct_Sandbox (EVICT_REGION_SIZE c)"



text \<open>
  The bodies of the offset macros of lines 75, 77 and 78 as they are written, and the sums
  that their comments give, each as a function of the three region sizes. The written
  bodies are numbers and mention no other macro.
\<close>

record region_sizes =
  main_size :: nat
  faulty_size :: nat
  overflow_size :: nat








section \<open>The executor core: model\<close>

text \<open>
  The header declares the global variables of the executor and the functions
  \<^verbatim>\<open>trace_test_case\<close>, \<^verbatim>\<open>load_template\<close>, \<^verbatim>\<open>template_l1d_prime_probe\<close> and
  \<^verbatim>\<open>template_l1d_flush_reload\<close>; their definitions are in other files of the
  repository.
\<close>

text \<open>
  Modelled from the spec: the error taxonomy of section 7. It is not in the header.
\<close>

datatype error = OutOfRange | UnknownTemplate | CorruptedSandbox | SizeViolation

text \<open>The two templates the header declares (lines 96-97).\<close>

datatype template = template_l1d_prime_probe | template_l1d_flush_reload

text \<open>
  The state of the executor has one field for each variable of the header that the model
  reads or writes. Memory behind a pointer is a function from the index to the value
  stored there; \<^verbatim>\<open>inputs\<close> is read as bytes. \<^verbatim>\<open>attack_template\<close> is a pointer to a
  string and may be unset. The field \<open>uarch\<close> is not a variable of the header: it is the
  state of the caches and performance counters, of an arbitrary type \<open>'u\<close>.
\<close>

record 'u executor =
  uarch_reset_rounds :: int
  enable_faulty_page :: "8 word"
  pre_run_flush :: "8 word"
  attack_template :: "string option"
  measurements :: "nat \<Rightarrow> measurement_t"
  sandbox :: sandbox_t
  test_case :: "nat \<Rightarrow> 8 word"
  measurement_code :: "8 word list"
  inputs :: "nat \<Rightarrow> 8 word"
  n_inputs :: nat
  uarch :: 'u

text \<open>
  Modelled from the spec: the privileged primitives and the template code that the core
  consumes (sections 4.3, 4.5 and 6), and the producer of the inputs (sections 3 and 5).
  None of them is in the header. \<open>template_named\<close> is the table of the two registered
  template names; \<open>template_code\<close> gives the code of a template before and after the slot
  of the test case; \<open>execute\<close> transfers control to the assembled code with the given
  register seeds and faulty-page setting, and is \<open>None\<close> when the code never returns.
  The header declares \<^verbatim>\<open>n_inputs\<close> as \<^verbatim>\<open>volatile size_t\<close>: a producer outside the core
  may change it at any time, so that two reads can differ. \<open>producer P k\<close> is the value
  that read number \<open>k\<close> of a session finds.
\<close>

record 'u platform =
  template_named :: "string \<Rightarrow> template option"
  template_code :: "template \<Rightarrow> 8 word list \<times> 8 word list"
  flush_uarch :: "'u \<Rightarrow> 'u"
  warm_up :: "'u \<Rightarrow> 'u"
  prime_cache :: "template \<Rightarrow> sandbox_t \<Rightarrow> 'u \<Rightarrow> 'u"
  read_pfc :: "'u \<Rightarrow> 64 word list"
  execute :: "8 word list \<Rightarrow> 8 word list \<Rightarrow> bool \<Rightarrow> sandbox_t \<Rightarrow> 'u \<Rightarrow> (sandbox_t \<times> 'u) option"
  probe_cache :: "template \<Rightarrow> sandbox_t \<Rightarrow> 'u \<Rightarrow> 64 word list \<times> 'u"
  stack_pointer :: "64 word"
  producer :: "nat \<Rightarrow> 64 word"

text \<open>
  Modelled from the spec: the Execution Template Selector (section 4.5). It fails with
  \<open>UnknownTemplate\<close> if the configured name matches neither template; an unset name
  matches neither.
\<close>

definition select_template :: "'u platform \<Rightarrow> string option \<Rightarrow> error + template" where
  "select_template P name =
     (case name of
        None \<Rightarrow> Inl UnknownTemplate
      | Some s \<Rightarrow>
          (case template_named P s of
             None \<Rightarrow> Inl UnknownTemplate
           | Some t \<Rightarrow> Inr t))"

text \<open>
  Modelled from the spec: \<^verbatim>\<open>load_template(test_case_size)\<close> (sections 4.5 and 6). The size
  must be at most \<open>MAX_TEST_CASE_SIZE\<close>; the test-case bytes are spliced into the slot of
  the selected template; it fails if the size is invalid or the template is unset.
\<close>

definition load_template :: "'u platform \<Rightarrow> 'u executor \<Rightarrow> nat \<Rightarrow> error + 'u executor" where
  "load_template P S tc_size =
     (if MAX_TEST_CASE_SIZE < tc_size then Inl SizeViolation
      else
        (case select_template P (attack_template S) of
           Inl e \<Rightarrow> Inl e
         | Inr t \<Rightarrow>
             Inr (S\<lparr>measurement_code :=
                      fst (template_code P t) @ map (test_case S) [0..<tc_size]
                        @ snd (template_code P t)\<rparr>)))"

text \<open>
  Modelled from the spec: the Input Installer (section 4.2). Input vector \<open>k\<close> is the
  \<open>INPUT_SIZE\<close> bytes of the input sequence that start at \<open>k * INPUT_SIZE\<close>. Given an
  index within the current input count, the installer copies the vector into
  \<open>main_region\<close>, \<open>faulty_region\<close> and the register-initialization area, which the header
  puts at \<open>REG_INIT_OFFSET\<close> from \<open>main_region\<close>, that is, on \<open>upper_overflow\<close>. It fails
  with \<open>OutOfRange\<close> for any other index and validates nothing else.
\<close>

definition input_vector :: "'u executor \<Rightarrow> nat \<Rightarrow> 8 word list" where
  "input_vector S k = map (inputs S) [k * INPUT_SIZE ..< k * INPUT_SIZE + INPUT_SIZE]"

definition install_input :: "'u executor \<Rightarrow> int \<Rightarrow> error + sandbox_t" where
  "install_input S i =
     (if 0 \<le> i \<and> i < int (n_inputs S) then
        Inr ((sandbox S)
          \<lparr>main_region := take MAIN_REGION_SIZE (input_vector S (nat i)),
           faulty_region :=
             take FAULTY_REGION_SIZE (drop MAIN_REGION_SIZE (input_vector S (nat i))),
           upper_overflow :=
             take REG_INITIALIZATION_REGION_SIZE_ALIGNED
               (drop REG_INIT_OFFSET (input_vector S (nat i)))\<rparr>)
      else Inl OutOfRange)"

definition register_seeds :: "'u executor \<Rightarrow> nat \<Rightarrow> 8 word list" where
  "register_seeds S k =
     take REG_INITIALIZATION_REGION_SIZE (drop REG_INIT_OFFSET (input_vector S k))"

text \<open>
  Modelled from the spec: the Measurement Orchestrator (sections 4.1 and 4.4). One run
  installs input vector \<open>i\<close> and walks the states Idle, Reset, Primed, Executing, Probed
  and Recorded:
  \<^item> Reset: zero the overflow canaries; flush if \<open>pre_run_flush\<close> is enabled; repeat the
    warm-up \<open>uarch_reset_rounds\<close> times;
  \<^item> Primed: the prime (or flush) step of the selected cache-state primitive;
  \<^item> Executing: save the stack pointer into \<open>stored_rsp\<close> and transfer control; the
    performance counters are read immediately before and after;
  \<^item> Probed: the probe (or reload) step gives the trace words; a non-zero byte in an
    overflow region flags the run as corrupted;
  \<^item> Recorded: trace words and counter deltas become \<open>latest_measurement\<close> and entry \<open>i\<close>
    of the measurement buffer.
  The result is \<open>None\<close> when the executed code never returns, an error when the installer
  rejects the index, and otherwise the corruption flag with the new state.
\<close>

definition canary_violated :: "sandbox_t \<Rightarrow> bool" where
  "canary_violated sb = list_ex (\<lambda>b. b \<noteq> 0) (lower_overflow sb @ upper_overflow sb)"

definition reset_canaries :: "sandbox_t \<Rightarrow> sandbox_t" where
  "reset_canaries sb =
     sb\<lparr>lower_overflow := replicate OVERFLOW_REGION_SIZE 0,
        upper_overflow := replicate OVERFLOW_REGION_SIZE 0\<rparr>"

definition reset_uarch :: "'u platform \<Rightarrow> 'u executor \<Rightarrow> 'u" where
  "reset_uarch P S =
     (warm_up P ^^ nat (uarch_reset_rounds S))
       (if flag_on (pre_run_flush S) then flush_uarch P (uarch S) else uarch S)"

definition ready_sandbox :: "'u platform \<Rightarrow> sandbox_t \<Rightarrow> sandbox_t" where
  "ready_sandbox P sb = (reset_canaries sb)\<lparr>stored_rsp := stack_pointer P\<rparr>"

definition primed_uarch :: "'u platform \<Rightarrow> template \<Rightarrow> 'u executor \<Rightarrow> sandbox_t \<Rightarrow> 'u" where
  "primed_uarch P t S sb = prime_cache P t (ready_sandbox P sb) (reset_uarch P S)"

definition transfer_control ::
  "'u platform \<Rightarrow> template \<Rightarrow> 'u executor \<Rightarrow> nat \<Rightarrow> sandbox_t \<Rightarrow> (sandbox_t \<times> 'u) option" where
  "transfer_control P t S i sb =
     execute P (measurement_code S) (register_seeds S i) (flag_on (enable_faulty_page S))
       (ready_sandbox P sb) (primed_uarch P t S sb)"

definition record_measurement ::
  "'u platform \<Rightarrow> template \<Rightarrow> nat \<Rightarrow> 'u executor \<Rightarrow> 64 word list \<Rightarrow> sandbox_t \<times> 'u
     \<Rightarrow> bool \<times> 'u executor" where
  "record_measurement P t i S before returned =
     (case returned of (sb, u) \<Rightarrow>
        (case probe_cache P t sb u of (ht, u') \<Rightarrow>
           (let m = \<lparr>htrace = take HTRACE_WIDTH ht,
                     pfc = take NUM_PFC (map2 (-) (read_pfc P u) before)\<rparr>
            in (canary_violated sb,
                S\<lparr>sandbox := sb\<lparr>latest_measurement := m\<rparr>,
                  measurements := (measurements S)(i := m),
                  uarch := u'\<rparr>))))"

definition run_input ::
  "'u platform \<Rightarrow> template \<Rightarrow> nat \<Rightarrow> 'u executor \<Rightarrow> (error + bool \<times> 'u executor) option" where
  "run_input P t i S =
     (case install_input S (int i) of
        Inl e \<Rightarrow> Some (Inl e)
      | Inr sb \<Rightarrow>
          (case transfer_control P t S i sb of
             None \<Rightarrow> None
           | Some returned \<Rightarrow>
               Some (Inr (record_measurement P t i S
                            (read_pfc P (primed_uarch P t S sb)) returned))))"

text \<open>
  Modelled from the spec: the session loop (sections 4.4, 5 and 7). The input vectors are
  run in order, from index 0 on. The loop reads \<open>n_inputs\<close> before every iteration and
  ends when the index has reached it; the installer reads it again, so an index that
  passed the loop's test can still be out of range. \<open>OutOfRange\<close> aborts the session at
  once; a corrupted run is still recorded and the session carries on, reporting
  \<open>CorruptedSandbox\<close> at the end. Iteration \<open>i\<close> makes the reads number \<open>2 * i\<close> and
  \<open>2 * i + 1\<close>.
\<close>

definition observe_count :: "'u platform \<Rightarrow> nat \<Rightarrow> 'u executor \<Rightarrow> 'u executor" where
  "observe_count P k S = S\<lparr>n_inputs := unat (producer P k)\<rparr>"

definition observed :: "'u platform \<Rightarrow> nat \<Rightarrow> 'u executor \<Rightarrow> 'u executor" where
  "observed P i S = observe_count P (2 * i + 1) (observe_count P (2 * i) S)"

datatype 'u outcome =
  Finished "'u executor"
| Rejected error "'u executor"
| Recorded bool "'u executor"
| Hung

definition iteration :: "'u platform \<Rightarrow> template \<Rightarrow> nat \<Rightarrow> 'u executor \<Rightarrow> 'u outcome" where
  "iteration P t i S =
     (if i < n_inputs (observe_count P (2 * i) S) then
        (case run_input P t i (observed P i S) of
           None \<Rightarrow> Hung
         | Some (Inl e) \<Rightarrow> Rejected e (observed P i S)
         | Some (Inr (corrupted, S')) \<Rightarrow> Recorded corrupted S')
      else Finished (observe_count P (2 * i) S))"






subsection \<open>The runs of a session\<close>

text \<open>
  The state in which iteration \<open>i\<close> of a session starts: the state after the runs of the
  input vectors \<open>0, \<dots>, i - 1\<close>, when each of them was made, returned and was recorded.
\<close>

primrec session_before ::
  "'u platform \<Rightarrow> template \<Rightarrow> 'u executor \<Rightarrow> nat \<Rightarrow> 'u executor option" where
  "session_before P t S 0 = Some S"
| "session_before P t S (Suc i) =
     (case session_before P t S i of
        None \<Rightarrow> None
      | Some Si \<Rightarrow>
          (case iteration P t i Si of
             Recorded corrupted S' \<Rightarrow> Some S'
           | _ \<Rightarrow> None))"








subsection \<open>Concrete sessions\<close>

text \<open>
  A platform whose executed code returns at once and leaves the sandbox alone, and a
  session with the Flush+Reload template and two input vectors of zero bytes.
\<close>

definition example_platform :: "unit platform" where
  "example_platform =
     \<lparr>template_named =
        (\<lambda>s. if s = ''prime_probe'' then Some template_l1d_prime_probe
              else if s = ''flush_reload'' then Some template_l1d_flush_reload
              else None),
      template_code = (\<lambda>t. ([], [])),
      flush_uarch = (\<lambda>u. u),
      warm_up = (\<lambda>u. u),
      prime_cache = (\<lambda>t sb u. u),
      read_pfc = (\<lambda>u. [0, 0, 0]),
      execute = (\<lambda>code regs faulty sb u. Some (sb, u)),
      probe_cache = (\<lambda>t sb u. ([0], u)),
      stack_pointer = 0,
      producer = (\<lambda>k. 2)\<rparr>"

definition example_sandbox :: sandbox_t where
  "example_sandbox =
     \<lparr>eviction_region = replicate 32768 0,
      lower_overflow = replicate OVERFLOW_REGION_SIZE 0,
      main_region = replicate MAIN_REGION_SIZE 0,
      faulty_region = replicate FAULTY_REGION_SIZE 0,
      upper_overflow = replicate OVERFLOW_REGION_SIZE 0,
      stored_rsp = 0,
      latest_measurement = \<lparr>htrace = [0], pfc = [0, 0, 0]\<rparr>\<rparr>"

definition example_executor :: "unit executor" where
  "example_executor =
     \<lparr>uarch_reset_rounds = UARCH_RESET_ROUNDS_DEFAULT,
      enable_faulty_page = ENABLE_FAULTY_DEFAULT,
      pre_run_flush = PRE_RUN_FLUSH_DEFAULT,
      attack_template = Some ''flush_reload'',
      measurements = (\<lambda>i. \<lparr>htrace = [0], pfc = [0, 0, 0]\<rparr>),
      sandbox = example_sandbox,
      test_case = (\<lambda>i. 0),
      measurement_code = [],
      inputs = (\<lambda>i. 0),
      n_inputs = 2,
      uarch = ()\<rparr>"






section \<open>Properties of the header\<close>

lemma align_up_dvd: "0 < a \<Longrightarrow> a dvd n \<Longrightarrow> align_up a n = n"
proof -
  assume a: "0 < a" and d: "a dvd n"
  from d obtain k where "n = a * k" ..
  then have k: "n = k * a" by (simp add: mult.commute)
  from a obtain b where b: "a = Suc b" by (cases a) auto
  have eq: "n + a - 1 = k * Suc b + b" by (simp add: k b)
  have "(n + a - 1) div a = (k * Suc b + b) div a" by (simp only: eq)
  also have "\<dots> = (k * Suc b + b) div Suc b" by (simp only: b)
  also have "\<dots> = k + b div Suc b" by (rule div_mult_self3) simp
  also have "\<dots> = k" by simp
  finally show ?thesis by (simp add: align_up_def k)
qed

lemma align_up_char: "align_up (Suc 0) n = n"
  by (simp add: align_up_def)

lemma L1D_SIZE_dvd: "L1D_SIZE c = Some s \<Longrightarrow> 8 dvd s"
  by (auto simp add: L1D_SIZE_def int_value_def split: option.splits if_splits)

lemma L1D_SIZE_cases:
  "L1D_SIZE c =
     (case defined_L1D_SIZE_K c of
        None \<Rightarrow> Some 32768
      | Some k \<Rightarrow> (if k \<le> 2097151 then Some (k * 1024) else None))"
  by (simp add: L1D_SIZE_def int_value_def INT_MAX_def split: option.splits)

lemma sizeof_Measurement: "sizeof_struct Measurement = 32"
  by (simp add: sizeof_struct_def alignof_struct_def Measurement_def sizeof_uint64_t_def
      HTRACE_WIDTH_def NUM_PFC_def align_up_def)

lemma alignof_Measurement: "alignof_struct Measurement = 8"
  by (simp add: alignof_struct_def Measurement_def)

lemmas region_sizes =
  OVERFLOW_REGION_SIZE_def MAIN_REGION_SIZE_def FAULTY_REGION_SIZE_def sizeof_uint64_t_def

lemma rsp_aligned: "8 dvd e \<Longrightarrow> align_up 8 (e + 16384) = e + 16384"
  by (simp add: align_up_dvd)

lemma measurement_aligned: "8 dvd e \<Longrightarrow> align_up 8 (e + 16392) = e + 16392"
  by (simp add: align_up_dvd)

lemma place_Sandbox:
  "8 dvd e \<Longrightarrow>
   place 0 (struct_Sandbox e) =
     [(''eviction_region'', 0),
      (''lower_overflow'', e),
      (''main_region'', e + 4096),
      (''faulty_region'', e + 8192),
      (''upper_overflow'', e + 12288),
      (''stored_rsp'', e + 16384),
      (''latest_measurement'', e + 16392)]"
  by (simp add: struct_Sandbox_def align_up_char sizeof_Measurement alignof_Measurement
      region_sizes rsp_aligned measurement_aligned add.assoc)

lemma end_of_Sandbox: "8 dvd e \<Longrightarrow> end_of 0 (struct_Sandbox e) = e + 16424"
  by (simp add: struct_Sandbox_def align_up_char sizeof_Measurement alignof_Measurement
      region_sizes rsp_aligned measurement_aligned add.assoc)

lemma alignof_Sandbox: "alignof_struct (struct_Sandbox e) = 8"
  by (simp add: struct_Sandbox_def alignof_Measurement) (simp add: alignof_struct_def)

lemma sizeof_Sandbox: "8 dvd e \<Longrightarrow> sizeof_struct (struct_Sandbox e) = e + 16424"
  by (simp add: sizeof_struct_def alignof_Sandbox end_of_Sandbox align_up_dvd)





text \<open>
  Claim C2. The sandbox is one record whose members are, in this order,
  \<open>eviction_region\<close> (\<open>EVICT_REGION_SIZE\<close> bytes), \<open>lower_overflow\<close>, \<open>main_region\<close>,
  \<open>faulty_region\<close>, \<open>upper_overflow\<close> (4096 bytes each), \<open>stored_rsp\<close> (8 bytes) and
  \<open>latest_measurement\<close>; every member starts where the one before it ends, so the five
  memory regions are contiguous and in the listed order. This holds for every cache
  configuration in which \<open>EVICT_REGION_SIZE\<close> has a value; in the others the struct has
  no declaration.
\<close>

theorem sandbox_member_order:
  "(EVICT_REGION_SIZE c = None \<longrightarrow> Sandbox c = None)
   \<and> (EVICT_REGION_SIZE c = Some e \<longrightarrow>
        Sandbox c = Some (struct_Sandbox e)
        \<and> map fst (struct_Sandbox e) =
            [''eviction_region'', ''lower_overflow'', ''main_region'', ''faulty_region'',
             ''upper_overflow'', ''stored_rsp'', ''latest_measurement'']
        \<and> map (\<lambda>(name, sz, al). sz) (struct_Sandbox e) =
            [e, 4096, 4096, 4096, 4096, 8, sizeof_struct Measurement]
        \<and> place 0 (struct_Sandbox e) =
            [(''eviction_region'', 0),
             (''lower_overflow'', e),
             (''main_region'', e + OVERFLOW_REGION_SIZE),
             (''faulty_region'', e + OVERFLOW_REGION_SIZE + MAIN_REGION_SIZE),
             (''upper_overflow'',
                e + OVERFLOW_REGION_SIZE + MAIN_REGION_SIZE + FAULTY_REGION_SIZE),
             (''stored_rsp'',
                e + OVERFLOW_REGION_SIZE + MAIN_REGION_SIZE + FAULTY_REGION_SIZE
                  + OVERFLOW_REGION_SIZE),
             (''latest_measurement'',
                e + OVERFLOW_REGION_SIZE + MAIN_REGION_SIZE + FAULTY_REGION_SIZE
                  + OVERFLOW_REGION_SIZE + sizeof_uint64_t)])"
proof (intro conjI impI)
  assume "EVICT_REGION_SIZE c = None"
  then show "Sandbox c = None" by (simp add: Sandbox_def)
next
  assume "EVICT_REGION_SIZE c = Some e"
  then show "Sandbox c = Some (struct_Sandbox e)" by (simp add: Sandbox_def)
next
  show "map fst (struct_Sandbox e) =
     [''eviction_region'', ''lower_overflow'', ''main_region'', ''faulty_region'',
      ''upper_overflow'', ''stored_rsp'', ''latest_measurement'']"
    by (simp add: struct_Sandbox_def)
next
  show "map (\<lambda>(name, sz, al). sz) (struct_Sandbox e) =
       [e, 4096, 4096, 4096, 4096, 8, sizeof_struct Measurement]"
    by (simp add: struct_Sandbox_def region_sizes)
next
  assume "EVICT_REGION_SIZE c = Some e"
  then have "8 dvd e" using L1D_SIZE_dvd [of c e] by (simp add: EVICT_REGION_SIZE_def)
  then show "place 0 (struct_Sandbox e) =
            [(''eviction_region'', 0),
             (''lower_overflow'', e),
             (''main_region'', e + OVERFLOW_REGION_SIZE),
             (''faulty_region'', e + OVERFLOW_REGION_SIZE + MAIN_REGION_SIZE),
             (''upper_overflow'',
                e + OVERFLOW_REGION_SIZE + MAIN_REGION_SIZE + FAULTY_REGION_SIZE),
             (''stored_rsp'',
                e + OVERFLOW_REGION_SIZE + MAIN_REGION_SIZE + FAULTY_REGION_SIZE
                  + OVERFLOW_REGION_SIZE),
             (''latest_measurement'',
                e + OVERFLOW_REGION_SIZE + MAIN_REGION_SIZE + FAULTY_REGION_SIZE
                  + OVERFLOW_REGION_SIZE + sizeof_uint64_t)]"
    by (simp add: place_Sandbox region_sizes)
qed

theorem sandbox_member_order_witness:
  "Sandbox fallback_config = Some (struct_Sandbox 32768)
   \<and> place 0 (struct_Sandbox 32768) =
       [(''eviction_region'', 0), (''lower_overflow'', 32768), (''main_region'', 36864),
        (''faulty_region'', 40960), (''upper_overflow'', 45056), (''stored_rsp'', 49152),
        (''latest_measurement'', 49160)]"
proof -
  have e: "EVICT_REGION_SIZE fallback_config = Some 32768"
    by (simp add: EVICT_REGION_SIZE_def L1D_SIZE_def fallback_config_def)
  from sandbox_member_order [of fallback_config 32768] e show ?thesis
    by (simp add: region_sizes)
qed




text \<open>
  Claim C8. \<open>L1D_CONFLICT_DISTANCE\<close> is \<open>L1D_SIZE\<close> divided by \<open>L1D_ASSOCIATIVITY\<close>, the
  size of one cache way, so that \<open>EVICT_REGION_SIZE\<close> is
  \<open>L1D_ASSOCIATIVITY * L1D_CONFLICT_DISTANCE\<close> for every cache configuration in which the
  associativity divides the cache size; with the fallback values (32768 bytes, 2 ways) it
  is 16384. The quotient exists when \<open>L1D_SIZE\<close> has a value and the associativity is
  not zero; an associativity of zero divides only a cache size of zero, and then the
  product is the eviction region's size whatever the factor.
\<close>

theorem conflict_distance_is_way_size:
  "(L1D_SIZE c = Some s \<and> 0 < L1D_ASSOCIATIVITY c \<longrightarrow>
      L1D_CONFLICT_DISTANCE c = Some (s div L1D_ASSOCIATIVITY c))
   \<and> (L1D_SIZE c = Some s \<and> 0 < L1D_ASSOCIATIVITY c \<and> L1D_ASSOCIATIVITY c dvd s \<longrightarrow>
        (\<exists>d. L1D_CONFLICT_DISTANCE c = Some d
           \<and> EVICT_REGION_SIZE c = Some (L1D_ASSOCIATIVITY c * d)))
   \<and> (L1D_SIZE c = Some s \<and> L1D_ASSOCIATIVITY c = 0 \<and> L1D_ASSOCIATIVITY c dvd s \<longrightarrow>
        L1D_CONFLICT_DISTANCE c = None
        \<and> (\<forall>d. EVICT_REGION_SIZE c = Some (L1D_ASSOCIATIVITY c * d)))
   \<and> (L1D_SIZE c = None \<longrightarrow> L1D_CONFLICT_DISTANCE c = None)
   \<and> L1D_SIZE fallback_config = Some 32768
   \<and> L1D_ASSOCIATIVITY fallback_config = 2
   \<and> L1D_CONFLICT_DISTANCE fallback_config = Some 16384"
proof -
  have quotient: "L1D_SIZE c = Some s \<and> 0 < L1D_ASSOCIATIVITY c \<longrightarrow>
      L1D_CONFLICT_DISTANCE c = Some (s div L1D_ASSOCIATIVITY c)"
    by (simp add: L1D_CONFLICT_DISTANCE_def)
  have product:
    "L1D_SIZE c = Some s \<and> 0 < L1D_ASSOCIATIVITY c \<and> L1D_ASSOCIATIVITY c dvd s \<longrightarrow>
        (\<exists>d. L1D_CONFLICT_DISTANCE c = Some d
           \<and> EVICT_REGION_SIZE c = Some (L1D_ASSOCIATIVITY c * d))"
    by (simp add: L1D_CONFLICT_DISTANCE_def EVICT_REGION_SIZE_def)
  have zero:
    "L1D_SIZE c = Some s \<and> L1D_ASSOCIATIVITY c = 0 \<and> L1D_ASSOCIATIVITY c dvd s \<longrightarrow>
        L1D_CONFLICT_DISTANCE c = None
        \<and> (\<forall>d. EVICT_REGION_SIZE c = Some (L1D_ASSOCIATIVITY c * d))"
    by (auto simp add: L1D_CONFLICT_DISTANCE_def EVICT_REGION_SIZE_def)
  have none: "L1D_SIZE c = None \<longrightarrow> L1D_CONFLICT_DISTANCE c = None"
    by (simp add: L1D_CONFLICT_DISTANCE_def)
  have fallback: "L1D_SIZE fallback_config = Some 32768"
    "L1D_ASSOCIATIVITY fallback_config = 2"
    "L1D_CONFLICT_DISTANCE fallback_config = Some 16384"
    by (simp_all add: L1D_CONFLICT_DISTANCE_def fallback_config_def L1D_SIZE_def
        L1D_ASSOCIATIVITY_def)
  from quotient product zero none fallback show ?thesis by (intro conjI)
qed

theorem conflict_distance_is_way_size_witness:
  "L1D_CONFLICT_DISTANCE \<lparr>defined_L1D_ASSOCIATIVITY = Some 4, defined_L1D_SIZE_K = Some 64\<rparr>
     = Some 16384
   \<and> EVICT_REGION_SIZE \<lparr>defined_L1D_ASSOCIATIVITY = Some 4, defined_L1D_SIZE_K = Some 64\<rparr>
     = Some (4 * 16384)"
  using conflict_distance_is_way_size
    [of "\<lparr>defined_L1D_ASSOCIATIVITY = Some 4, defined_L1D_SIZE_K = Some 64\<rparr>" 65536]
  by (auto simp add: L1D_ASSOCIATIVITY_def L1D_SIZE_cases)

text \<open>
  Claim C9. With the fallback cache configuration the eviction region has 32768 bytes and
  the whole sandbox has 32768 + 4 * 4096 + 8 + 32 = 49192 bytes, which is not more than
  \<open>WORKING_MEMORY_SIZE\<close> = 1048576.
\<close>

theorem sandbox_fits_working_memory:
  "EVICT_REGION_SIZE fallback_config = Some 32768
   \<and> Sandbox fallback_config = Some (struct_Sandbox 32768)
   \<and> map (\<lambda>(name, sz, al). sz) (struct_Sandbox 32768)
       = [32768, 4096, 4096, 4096, 4096, 8, 32]
   \<and> sizeof_struct (struct_Sandbox 32768) = 32768 + 4 * 4096 + 8 + 32
   \<and> sizeof_struct (struct_Sandbox 32768) = 49192
   \<and> WORKING_MEMORY_SIZE = 1048576
   \<and> sizeof_struct (struct_Sandbox 32768) \<le> WORKING_MEMORY_SIZE"
proof -
  have e: "EVICT_REGION_SIZE fallback_config = Some 32768"
    by (simp add: EVICT_REGION_SIZE_def L1D_SIZE_def fallback_config_def)
  have m: "map (\<lambda>(name, sz, al). sz) (struct_Sandbox 32768)
       = [32768, 4096, 4096, 4096, 4096, 8, 32]"
    by (simp add: struct_Sandbox_def region_sizes sizeof_Measurement)
  have s: "sizeof_struct (struct_Sandbox 32768) = 49192"
    by (simp add: sizeof_Sandbox)
  from e m s show ?thesis by (simp add: WORKING_MEMORY_SIZE_def Sandbox_def)
qed

text \<open>
  Claim C10. An input vector has \<open>INPUT_SIZE\<close> =
  \<open>MAIN_REGION_SIZE + FAULTY_REGION_SIZE + REG_INITIALIZATION_REGION_SIZE_ALIGNED\<close> = 12288
  bytes, three pages of 4096 bytes, although the register seeds take only
  \<open>REG_INITIALIZATION_REGION_SIZE\<close> = 64 bytes: the register-initialization area is padded
  from 64 to 4096 bytes.
\<close>

theorem input_size_three_pages:
  "INPUT_SIZE
     = MAIN_REGION_SIZE + FAULTY_REGION_SIZE + REG_INITIALIZATION_REGION_SIZE_ALIGNED
   \<and> INPUT_SIZE = 12288
   \<and> INPUT_SIZE = 3 * 4096
   \<and> MAIN_REGION_SIZE = 4096
   \<and> FAULTY_REGION_SIZE = 4096
   \<and> REG_INITIALIZATION_REGION_SIZE_ALIGNED = 4096
   \<and> REG_INITIALIZATION_REGION_SIZE = 64
   \<and> REG_INITIALIZATION_REGION_SIZE_ALIGNED - REG_INITIALIZATION_REGION_SIZE = 4032"
  by (simp add: INPUT_SIZE_def MAIN_REGION_SIZE_def FAULTY_REGION_SIZE_def
      REG_INITIALIZATION_REGION_SIZE_ALIGNED_def REG_INITIALIZATION_REGION_SIZE_def)

text \<open>
  Claim C7. The defaults of the process-wide configuration: the reset-round count
  defaults to 1, the faulty-page flag to off (0) and the pre-run flush flag to on (1).
\<close>

theorem configuration_defaults:
  "UARCH_RESET_ROUNDS_DEFAULT = 1
   \<and> ENABLE_FAULTY_DEFAULT = 0
   \<and> \<not> flag_on ENABLE_FAULTY_DEFAULT
   \<and> PRE_RUN_FLUSH_DEFAULT = 1
   \<and> flag_on PRE_RUN_FLUSH_DEFAULT"
  by (simp add: UARCH_RESET_ROUNDS_DEFAULT_def ENABLE_FAULTY_DEFAULT_def
      PRE_RUN_FLUSH_DEFAULT_def flag_on_def)

section \<open>Properties of the executor core\<close>

subsection \<open>Installing an input vector\<close>

lemma take_drop3: "take a v @ take b (drop a v) @ take c (drop (a + b) v) = take (a + b + c) v"
proof -
  have "take (a + b + c) v = take a v @ take (b + c) (drop a v)"
    by (simp add: take_add add.assoc)
  also have "take (b + c) (drop a v) = take b (drop a v) @ take c (drop b (drop a v))"
    by (simp add: take_add)
  finally show ?thesis by (simp add: add.commute)
qed

lemma length_input_vector: "length (input_vector S k) = INPUT_SIZE"
  by (simp add: input_vector_def)

lemma nth_input_vector: "j < INPUT_SIZE \<Longrightarrow> input_vector S k ! j = inputs S (k * INPUT_SIZE + j)"
  by (simp add: input_vector_def)

lemma installed_regions:
  "take MAIN_REGION_SIZE (input_vector S k)
     @ take FAULTY_REGION_SIZE (drop MAIN_REGION_SIZE (input_vector S k))
     @ take REG_INITIALIZATION_REGION_SIZE_ALIGNED (drop REG_INIT_OFFSET (input_vector S k))
   = input_vector S k"
  using take_drop3 [of 4096 "input_vector S k" 4096 4096] length_input_vector [of S k]
  by (simp add: INPUT_SIZE_def REG_INIT_OFFSET_def MAIN_REGION_SIZE_def FAULTY_REGION_SIZE_def
      REG_INITIALIZATION_REGION_SIZE_ALIGNED_def)

text \<open>
  Claim C6. For every index \<open>i\<close> with \<open>0 \<le> i\<close> below the current input count the Input
  Installer succeeds and copies exactly the \<open>INPUT_SIZE\<close> bytes of input vector \<open>i\<close> into
  \<open>main_region\<close>, \<open>faulty_region\<close> and the register-initialization area, in this order,
  leaving the rest of the sandbox as it was; for every other index it fails with
  \<open>OutOfRange\<close>; and it fails for no other reason.
\<close>

theorem install_input_contract:
  "(0 \<le> i \<and> i < int (n_inputs S) \<longrightarrow>
      (\<exists>sb. install_input S i = Inr sb
         \<and> main_region sb @ faulty_region sb @ upper_overflow sb = input_vector S (nat i)
         \<and> length (input_vector S (nat i)) = INPUT_SIZE
         \<and> (\<forall>j<INPUT_SIZE.
               (main_region sb @ faulty_region sb @ upper_overflow sb) ! j
                 = inputs S (nat i * INPUT_SIZE + j))
         \<and> length (main_region sb) = MAIN_REGION_SIZE
         \<and> length (faulty_region sb) = FAULTY_REGION_SIZE
         \<and> length (upper_overflow sb) = REG_INITIALIZATION_REGION_SIZE_ALIGNED
         \<and> eviction_region sb = eviction_region (sandbox S)
         \<and> lower_overflow sb = lower_overflow (sandbox S)
         \<and> stored_rsp sb = stored_rsp (sandbox S)
         \<and> latest_measurement sb = latest_measurement (sandbox S)))
   \<and> (\<not> (0 \<le> i \<and> i < int (n_inputs S)) \<longrightarrow> install_input S i = Inl OutOfRange)
   \<and> (\<forall>e. install_input S i = Inl e \<longrightarrow>
          e = OutOfRange \<and> \<not> (0 \<le> i \<and> i < int (n_inputs S)))"
proof (intro conjI impI allI)
  assume inb: "0 \<le> i \<and> i < int (n_inputs S)"
  let ?v = "input_vector S (nat i)"
  let ?sb = "(sandbox S)
          \<lparr>main_region := take MAIN_REGION_SIZE ?v,
           faulty_region := take FAULTY_REGION_SIZE (drop MAIN_REGION_SIZE ?v),
           upper_overflow :=
             take REG_INITIALIZATION_REGION_SIZE_ALIGNED (drop REG_INIT_OFFSET ?v)\<rparr>"
  have r: "install_input S i = Inr ?sb" using inb by (simp add: install_input_def)
  have cat: "main_region ?sb @ faulty_region ?sb @ upper_overflow ?sb = ?v"
    using installed_regions [of S "nat i"] by simp
  have lens: "length (main_region ?sb) = MAIN_REGION_SIZE"
    "length (faulty_region ?sb) = FAULTY_REGION_SIZE"
    "length (upper_overflow ?sb) = REG_INITIALIZATION_REGION_SIZE_ALIGNED"
    by (simp_all add: length_input_vector INPUT_SIZE_def REG_INIT_OFFSET_def
        MAIN_REGION_SIZE_def FAULTY_REGION_SIZE_def REG_INITIALIZATION_REGION_SIZE_ALIGNED_def)
  have nth: "\<forall>j<INPUT_SIZE. (main_region ?sb @ faulty_region ?sb @ upper_overflow ?sb) ! j
                 = inputs S (nat i * INPUT_SIZE + j)"
  proof (intro allI impI)
    fix j assume "j < INPUT_SIZE"
    then have "?v ! j = inputs S (nat i * INPUT_SIZE + j)" by (rule nth_input_vector)
    then show "(main_region ?sb @ faulty_region ?sb @ upper_overflow ?sb) ! j
                 = inputs S (nat i * INPUT_SIZE + j)"
      by (simp only: cat)
  qed
  have rest: "eviction_region ?sb = eviction_region (sandbox S)"
    "lower_overflow ?sb = lower_overflow (sandbox S)"
    "stored_rsp ?sb = stored_rsp (sandbox S)"
    "latest_measurement ?sb = latest_measurement (sandbox S)"
    by simp_all
  show "\<exists>sb. install_input S i = Inr sb
         \<and> main_region sb @ faulty_region sb @ upper_overflow sb = input_vector S (nat i)
         \<and> length (input_vector S (nat i)) = INPUT_SIZE
         \<and> (\<forall>j<INPUT_SIZE.
               (main_region sb @ faulty_region sb @ upper_overflow sb) ! j
                 = inputs S (nat i * INPUT_SIZE + j))
         \<and> length (main_region sb) = MAIN_REGION_SIZE
         \<and> length (faulty_region sb) = FAULTY_REGION_SIZE
         \<and> length (upper_overflow sb) = REG_INITIALIZATION_REGION_SIZE_ALIGNED
         \<and> eviction_region sb = eviction_region (sandbox S)
         \<and> lower_overflow sb = lower_overflow (sandbox S)
         \<and> stored_rsp sb = stored_rsp (sandbox S)
         \<and> latest_measurement sb = latest_measurement (sandbox S)"
    using r cat length_input_vector [of S "nat i"] nth lens rest by blast
next
  assume "\<not> (0 \<le> i \<and> i < int (n_inputs S))"
  then show "install_input S i = Inl OutOfRange" by (simp add: install_input_def)
next
  fix e assume "install_input S i = Inl e"
  then show "e = OutOfRange" by (simp add: install_input_def split: if_splits)
next
  fix e assume "install_input S i = Inl e"
  then show "\<not> (0 \<le> i \<and> i < int (n_inputs S))"
    by (simp add: install_input_def split: if_splits)
qed

theorem install_input_contract_witness:
  "(\<exists>sb. install_input example_executor 1 = Inr sb
      \<and> main_region sb @ faulty_region sb @ upper_overflow sb = input_vector example_executor 1
      \<and> length (input_vector example_executor 1) = INPUT_SIZE)
   \<and> install_input example_executor 2 = Inl OutOfRange
   \<and> install_input example_executor (- 1) = Inl OutOfRange"
proof -
  have n: "n_inputs example_executor = 2" by (simp add: example_executor_def)
  from install_input_contract [of 1 example_executor]
    install_input_contract [of 2 example_executor]
    install_input_contract [of "- 1" example_executor] n
  show ?thesis by auto
qed

subsection \<open>Loading the template\<close>

text \<open>
  Claim C5. \<open>load_template\<close> rejects a test case of \<open>MAX_TEST_CASE_SIZE + 1\<close> = 4097
  bytes with \<open>SizeViolation\<close>; with a selected template it accepts a test case of exactly
  \<open>MAX_TEST_CASE_SIZE\<close> bytes and splices it into the template; and for every size it
  fails whenever the size exceeds \<open>MAX_TEST_CASE_SIZE\<close> or no template is selected, and
  only then.
\<close>

theorem load_template_size_bound:
  "load_template P S (MAX_TEST_CASE_SIZE + 1) = Inl SizeViolation
   \<and> MAX_TEST_CASE_SIZE + 1 = 4097
   \<and> (select_template P (attack_template S) = Inr t \<longrightarrow>
        load_template P S MAX_TEST_CASE_SIZE
          = Inr (S\<lparr>measurement_code :=
                     fst (template_code P t) @ map (test_case S) [0..<MAX_TEST_CASE_SIZE]
                       @ snd (template_code P t)\<rparr>))
   \<and> (MAX_TEST_CASE_SIZE < sz \<or> (\<forall>t. select_template P (attack_template S) \<noteq> Inr t) \<longrightarrow>
        (\<exists>e. load_template P S sz = Inl e))
   \<and> ((\<exists>e. load_template P S sz = Inl e) \<longrightarrow>
        MAX_TEST_CASE_SIZE < sz \<or> (\<forall>t. select_template P (attack_template S) \<noteq> Inr t))"
  by (auto simp add: load_template_def MAX_TEST_CASE_SIZE_def split: sum.splits)

theorem load_template_size_bound_witness:
  "(\<exists>S'. load_template example_platform example_executor MAX_TEST_CASE_SIZE = Inr S')
   \<and> load_template example_platform example_executor (MAX_TEST_CASE_SIZE + 1)
       = Inl SizeViolation
   \<and> (\<exists>e. load_template example_platform (example_executor\<lparr>attack_template := None\<rparr>)
             MAX_TEST_CASE_SIZE = Inl e)"
proof -
  have s: "select_template example_platform (attack_template example_executor)
             = Inr template_l1d_flush_reload"
    by (simp add: select_template_def example_platform_def example_executor_def)
  have u: "\<forall>t. select_template example_platform
             (attack_template (example_executor\<lparr>attack_template := None\<rparr>)) \<noteq> Inr t"
    by (simp add: select_template_def)
  note selected = load_template_size_bound
         [of example_platform example_executor template_l1d_flush_reload MAX_TEST_CASE_SIZE]
  note unset = load_template_size_bound
         [of example_platform "example_executor\<lparr>attack_template := None\<rparr>"
             template_l1d_flush_reload MAX_TEST_CASE_SIZE]
  from selected s
  have "\<exists>S'. load_template example_platform example_executor MAX_TEST_CASE_SIZE = Inr S'"
    by blast
  moreover from selected
  have "load_template example_platform example_executor (MAX_TEST_CASE_SIZE + 1)
          = Inl SizeViolation"
    by blast
  moreover from unset u
  have "\<exists>e. load_template example_platform (example_executor\<lparr>attack_template := None\<rparr>)
             MAX_TEST_CASE_SIZE = Inl e"
    by blast
  ultimately show ?thesis by blast
qed

subsection \<open>Tracing a test case\<close>



lemma input_vector_cong: "inputs S = inputs S' \<Longrightarrow> input_vector S k = input_vector S' k"
  by (simp add: input_vector_def)



lemma run_input_hangs:
  "run_input P t i S = None \<Longrightarrow> i < n_inputs S"
  by (auto simp add: run_input_def install_input_def split: if_splits option.splits)





lemma session_before_Suc:
  "session_before P t S0 i = Some S \<Longrightarrow> iteration P t i S = Recorded c S1 \<Longrightarrow>
   session_before P t S0 (Suc i) = Some S1"
  by simp
















end
